theory Spec2Isabelle
  imports Complex_Main
begin

section \<open>Values, errors and library functions\<close>

text \<open>
  Numbers are modelled as reals: Python's and numpy's floats are idealised, so rounding,
  infinities and NaN are outside the model. Where the source divides, the divisor is
  named in the text of the definition; HOL's \<open>x / 0 = 0\<close> stands where numpy would give
  \<open>inf\<close> or \<open>nan\<close>, and a theorem whose value depends on such a quotient assumes the
  divisor is not zero.
\<close>

datatype error = KeyError string | IndexError

text \<open>\<open>xs[i]\<close> for a constant index \<open>i \<ge> 0\<close>: IndexError out of range.\<close>

definition py_getitem :: "'a list \<Rightarrow> nat \<Rightarrow> error + 'a" where
  "py_getitem xs i = (if i < length xs then Inr (xs ! i) else Inl IndexError)"

text \<open>\<open>d[k]\<close> on a dict written as an association list or a map: KeyError when absent.\<close>

definition dict_getitem :: "(string \<rightharpoonup> 'v) \<Rightarrow> string \<Rightarrow> error + 'v" where
  "dict_getitem d k = (case d k of None \<Rightarrow> Inl (KeyError k) | Some v \<Rightarrow> Inr v)"

text \<open>\<open>d.get(k, default)\<close>: never raises.\<close>

definition dict_get :: "(string \<rightharpoonup> 'v) \<Rightarrow> string \<Rightarrow> 'v \<Rightarrow> 'v" where
  "dict_get d k dflt = (case d k of None \<Rightarrow> dflt | Some v \<Rightarrow> v)"

text \<open>Sequencing of computations that may raise.\<close>

definition bind_err :: "error + 'a \<Rightarrow> ('a \<Rightarrow> error + 'b) \<Rightarrow> error + 'b" where
  "bind_err m f = (case m of Inl e \<Rightarrow> Inl e | Inr x \<Rightarrow> f x)"

text \<open>\<open>np.clip(a, a_min, a_max)\<close> on a scalar: \<open>minimum(a_max, maximum(a, a_min))\<close>.\<close>

definition clip :: "real \<Rightarrow> real \<Rightarrow> real \<Rightarrow> real" where
  "clip a a_min a_max = min a_max (max a a_min)"

text \<open>
  Modelled from the spec: \<open>utils.lmap\<close> (module \<open>highway_env.utils\<close> is not among the
  sources). The spec calls it the linear map of a value from a range \<open>x = [x0, x1]\<close> to a
  range \<open>y = [y0, y1]\<close>: \<open>x0\<close> goes to \<open>y0\<close> and \<open>x1\<close> to \<open>y1\<close>. The divisor is
  \<open>x1 - x0\<close>.
\<close>

definition lmap :: "real \<Rightarrow> real \<times> real \<Rightarrow> real \<times> real \<Rightarrow> real" where
  "lmap v x y = fst y + (v - fst x) * (snd y - fst y) / (snd x - fst x)"

section \<open>Data model\<close>

text \<open>A lane index is the triple \<open>(_from, _to, _id)\<close>; \<open>index[2]\<close> is its lane number.\<close>

type_synonym lane_index = "string \<times> string \<times> int"

definition lane_id :: "lane_index \<Rightarrow> int" where
  "lane_id i = snd (snd i)"

text \<open>
  The lane geometry is an external collaborator; a lane is the two queries the
  environment makes of it.
\<close>

record abstract_lane =
  local_coordinates :: "real \<times> real \<Rightarrow> real \<times> real"
  distance_with_heading :: "real \<times> real \<Rightarrow> real \<Rightarrow> real"

text \<open>
  \<open>RoadNetwork\<close>: \<open>graph\<close> is the dict of dicts of lane lists, kept as association lists
  in iteration order; \<open>all_side_lanes\<close> is the network's own method, defined outside the
  sources and taken as it is given.
\<close>

record road_network =
  graph :: "(string \<times> (string \<times> abstract_lane list) list) list"
  all_side_lanes :: "lane_index \<Rightarrow> lane_index list"

record road =
  network :: road_network

text \<open>
  \<open>target_lane_index\<close> is \<open>Some\<close> exactly for a \<open>ControlledVehicle\<close>, the class the
  source tests with \<open>isinstance\<close>; \<open>lane\<close> is the lane object the vehicle is on.
\<close>

record vehicle =
  position :: "real \<times> real"
  heading :: real
  speed :: real
  lane_index :: lane_index
  target_lane_index :: "lane_index option"
  lane :: abstract_lane
  crashed :: bool
  on_road :: bool
  vehicle_road :: road

text \<open>
  The configuration dict. Its number-valued keys (the reward weights among them) are the
  entries of a map, so that a key may be absent; the keys that \<open>default_config\<close> writes
  with other values are typed fields. A typed field is always there: the KeyError of a
  strict read of \<open>normalize_reward\<close>, \<open>reward_speed_range\<close> or \<open>offroad_terminal\<close> in a
  dict without that key is outside the model, and no theorem below says that a call
  returns for every dict.
\<close>

record config =
  entries :: "string \<rightharpoonup> real"
  observation_type :: string
  action_type :: string
  initial_lane_id :: "int option"
  reward_speed_range :: "real \<times> real"
  normalize_reward :: bool
  offroad_terminal :: bool

text \<open>
  The environment object: \<open>self.config\<close>, \<open>self.road\<close> and \<open>self.vehicle\<close> (the first
  controlled vehicle). \<open>DevHighway\<close> adds the two attributes its \<open>_reset\<close> creates.
\<close>

record env =
  config :: config
  road :: road
  vehicle :: vehicle

record dev_env = env +
  previous_steering :: real
  previous_acceleration :: real

section \<open>HighwayEnv\<close>

text \<open>
  \<open>default_config\<close>: the dict of \<open>super().default_config()\<close> (class \<open>AbstractEnv\<close>, outside
  the sources, given as \<open>base\<close>) updated with the class's own keys.
\<close>

definition HighwayEnv_default_config :: "config \<Rightarrow> config" where
  "HighwayEnv_default_config base =
     base\<lparr>entries := (entries base)
            (''lanes_count'' \<mapsto> 4,
             ''vehicles_count'' \<mapsto> 50,
             ''controlled_vehicles'' \<mapsto> 1,
             ''duration'' \<mapsto> 40,
             ''ego_spacing'' \<mapsto> 2,
             ''vehicles_density'' \<mapsto> 1,
             ''collision_reward'' \<mapsto> - 1,
             ''right_lane_reward'' \<mapsto> 0.1,
             ''high_speed_reward'' \<mapsto> 0.4,
             ''lane_change_reward'' \<mapsto> 0),
          observation_type := ''Kinematics'',
          action_type := ''DiscreteMetaAction'',
          initial_lane_id := None,
          reward_speed_range := (20, 30),
          normalize_reward := True,
          offroad_terminal := False\<rparr>"

text \<open>
  \<open>_reset\<close> builds the road and the vehicles with constructors of the road and vehicle
  packages (\<open>Road\<close>, \<open>RoadNetwork.straight_road_network\<close>, \<open>Vehicle.create_random\<close>) and
  the random source; what they build is given as \<open>new_road\<close> and \<open>new_vehicle\<close>.
\<close>

definition HighwayEnv_reset :: "road \<Rightarrow> vehicle \<Rightarrow> 'e env_scheme \<Rightarrow> 'e env_scheme" where
  "HighwayEnv_reset new_road new_vehicle self = self\<lparr>road := new_road, vehicle := new_vehicle\<rparr>"

text \<open>
  The lane number both policies read: \<open>target_lane_index[2]\<close> of a \<open>ControlledVehicle\<close>,
  \<open>lane_index[2]\<close> of any other vehicle.
\<close>

definition lane_number :: "vehicle \<Rightarrow> int" where
  "lane_number v =
     (case target_lane_index v of
        Some target \<Rightarrow> lane_id target
      | None \<Rightarrow> lane_id (lane_index v))"

text \<open>
  \<open>_rewards\<close>: the dict of components, as an association list in the order of the dict
  literal. The action is not read.
\<close>

definition HighwayEnv_rewards :: "'e env_scheme \<Rightarrow> 'a \<Rightarrow> (string \<times> real) list" where
  "HighwayEnv_rewards self action =
     (let neighbours = all_side_lanes (network (road self)) (lane_index (vehicle self));
          lane_no = lane_number (vehicle self);
          forward_speed = speed (vehicle self) * cos (heading (vehicle self));
          scaled_speed = lmap forward_speed (reward_speed_range (config self)) (0, 1)
      in [(''collision_reward'', of_bool (crashed (vehicle self))),
          (''right_lane_reward'',
             real_of_int lane_no / real_of_int (max (int (length neighbours) - 1) 1)),
          (''high_speed_reward'', clip scaled_speed 0 1),
          (''on_road_reward'', of_bool (on_road (vehicle self)))])"

text \<open>
  The generator expression of \<open>_reward\<close>:
  \<open>sum(self.config.get(name, 0) * reward for name, reward in rewards.items())\<close>.
\<close>

definition weighted_sum :: "config \<Rightarrow> (string \<times> real) list \<Rightarrow> real" where
  "weighted_sum cfg rewards =
     sum_list (map (\<lambda>(name, reward). dict_get (entries cfg) name 0 * reward) rewards)"

definition HighwayEnv_reward :: "'e env_scheme \<Rightarrow> 'a \<Rightarrow> error + real" where
  "HighwayEnv_reward self action =
     (let rewards = HighwayEnv_rewards self action;
          reward = weighted_sum (config self) rewards
      in bind_err
           (if normalize_reward (config self) then
              bind_err (dict_getitem (entries (config self)) ''collision_reward'') (\<lambda>collision.
              bind_err (dict_getitem (entries (config self)) ''high_speed_reward'') (\<lambda>high_speed.
              bind_err (dict_getitem (entries (config self)) ''right_lane_reward'') (\<lambda>right_lane.
              Inr (lmap reward (collision, high_speed + right_lane) (0, 1)))))
            else Inr reward)
           (\<lambda>reward.
              bind_err (dict_getitem (map_of rewards) ''on_road_reward'') (\<lambda>on_road_reward.
              Inr (reward * on_road_reward))))"

definition HighwayEnv_is_terminated :: "'e env_scheme \<Rightarrow> bool" where
  "HighwayEnv_is_terminated self =
     (crashed (vehicle self) \<or>
      offroad_terminal (config self) \<and> \<not> on_road (vehicle self))"

section \<open>DevHighway\<close>

definition DevHighway_default_config :: "config \<Rightarrow> config" where
  "DevHighway_default_config base =
     (let config = HighwayEnv_default_config base
      in config\<lparr>entries := (entries config)
            (''simulation_frequency'' \<mapsto> 15,
             ''policy_frequency'' \<mapsto> 15,
             ''lanes_count'' \<mapsto> 3,
             ''vehicles_count'' \<mapsto> 50,
             ''duration'' \<mapsto> 30,
             ''ego_spacing'' \<mapsto> 2,
             ''lane_centering_cost'' \<mapsto> 4,
             ''lane_centering_reward'' \<mapsto> 0.01,
             ''abrupt_steering_penalty'' \<mapsto> 0.019,
             ''abrupt_acceleration_penalty'' \<mapsto> 0.001,
             ''right_lane_reward'' \<mapsto> 0.1,
             ''high_speed_reward'' \<mapsto> 0.35),
          action_type := ''ContinuousAction'',
          offroad_terminal := False\<rparr>)"

text \<open>
  \<open>_rewards\<close> of the extended policy reads and writes \<open>self.previous_steering\<close> and
  \<open>self.previous_acceleration\<close>: the function returns the object as the call leaves it,
  also when the call raises, next to the dict or the error. The action is the sequence
  \<open>[acceleration, steering]\<close>. The divisor of \<open>lane_centering_reward\<close> is
  \<open>1 + cost * lateral\<^sup>2\<close>.
\<close>

definition DevHighway_rewards ::
  "'e dev_env_scheme \<Rightarrow> real list \<Rightarrow> (error + (string \<times> real) list) \<times> 'e dev_env_scheme" where
  "DevHighway_rewards self action =
     (let neighbours = all_side_lanes (network (road self)) (lane_index (vehicle self));
          lane_no = lane_number (vehicle self);
          forward_speed = speed (vehicle self) * cos (heading (vehicle self));
          scaled_speed = lmap forward_speed (reward_speed_range (config self)) (0, 1);
          lateral = snd (local_coordinates (lane (vehicle self)) (position (vehicle self)))
      in case dict_getitem (entries (config self)) ''abrupt_steering_penalty'' of
           Inl e \<Rightarrow> (Inl e, self)
         | Inr steering_weight \<Rightarrow>
        (case py_getitem action 1 of
           Inl e \<Rightarrow> (Inl e, self)
         | Inr steering \<Rightarrow>
        (let steering_change_penalty = steering_weight * \<bar>steering - previous_steering self\<bar>;
             self1 = self\<lparr>previous_steering := steering\<rparr>
         in case dict_getitem (entries (config self1)) ''abrupt_acceleration_penalty'' of
              Inl e \<Rightarrow> (Inl e, self1)
            | Inr acceleration_weight \<Rightarrow>
           (case py_getitem action 0 of
              Inl e \<Rightarrow> (Inl e, self1)
            | Inr acceleration \<Rightarrow>
           (let acceleration_change_penalty =
                  acceleration_weight * \<bar>acceleration - previous_acceleration self1\<bar>;
                self2 = self1\<lparr>previous_acceleration := acceleration\<rparr>
            in case dict_getitem (entries (config self2)) ''lane_centering_cost'' of
                 Inl e \<Rightarrow> (Inl e, self2)
               | Inr cost \<Rightarrow>
                 (Inr [(''collision_reward'', if crashed (vehicle self2) then - 1 else 0),
                       (''right_lane_reward'',
                          real_of_int lane_no / real_of_int (max (int (length neighbours) - 1) 1)),
                       (''high_speed_reward'', clip scaled_speed 0 1),
                       (''on_road_reward'', of_bool (on_road (vehicle self2))),
                       (''lane_centering_reward'', 1 / (1 + cost * lateral\<^sup>2)),
                       (''abrupt_steering_penalty'', - steering_change_penalty),
                       (''abrupt_acceleration_penalty'', - acceleration_change_penalty)],
                  self2))))))"

definition DevHighway_reward ::
  "'e dev_env_scheme \<Rightarrow> real list \<Rightarrow> (error + real) \<times> 'e dev_env_scheme" where
  "DevHighway_reward self action =
     (case DevHighway_rewards self action of
        (Inl e, self') \<Rightarrow> (Inl e, self')
      | (Inr rewards, self') \<Rightarrow>
          (let reward = weighted_sum (config self') rewards
           in (bind_err
                 (if normalize_reward (config self') then
                    bind_err (dict_getitem (entries (config self')) ''collision_reward'') (\<lambda>collision.
                    bind_err (dict_getitem (entries (config self')) ''high_speed_reward'') (\<lambda>high_speed.
                    bind_err (dict_getitem (entries (config self')) ''right_lane_reward'') (\<lambda>right_lane.
                    bind_err (dict_getitem (entries (config self')) ''lane_centering_reward'') (\<lambda>lane_centering.
                    bind_err (dict_getitem (entries (config self')) ''abrupt_steering_penalty'') (\<lambda>abrupt_steering.
                    bind_err (dict_getitem (entries (config self')) ''abrupt_acceleration_penalty'') (\<lambda>abrupt_acceleration.
                    Inr (lmap reward
                           (collision,
                            high_speed + right_lane + lane_centering + abrupt_steering
                              + abrupt_acceleration)
                           (0, 1))))))))
                  else Inr reward)
                 (\<lambda>reward.
                    bind_err (dict_getitem (map_of rewards) ''on_road_reward'') (\<lambda>on_road_reward.
                    Inr (reward * on_road_reward))),
               self')))"

text \<open>
  \<open>lane_distance\<close>: three nested loops over the graph fill two lists, \<open>indexes\<close> and
  \<open>distances\<close>; the loops are the functions below, innermost first, each taking and
  returning the pair of lists. The function returns \<open>distances\<close>.
\<close>

fun lanes_loop ::
  "vehicle \<Rightarrow> string \<Rightarrow> string \<Rightarrow> nat \<Rightarrow> abstract_lane list \<Rightarrow>
   lane_index list \<times> real list \<Rightarrow> lane_index list \<times> real list" where
  "lanes_loop v from to i [] acc = acc"
| "lanes_loop v from to i (l # lanes) (indexes, distances) =
     lanes_loop v from to (Suc i) lanes
       (indexes @ [(from, to, int i)],
        distances @ [distance_with_heading l (position v) (heading v)])"

fun to_loop ::
  "vehicle \<Rightarrow> string \<Rightarrow> (string \<times> abstract_lane list) list \<Rightarrow>
   lane_index list \<times> real list \<Rightarrow> lane_index list \<times> real list" where
  "to_loop v from [] acc = acc"
| "to_loop v from ((to, lanes) # to_dict) acc =
     to_loop v from to_dict (lanes_loop v from to 0 lanes acc)"

fun from_loop ::
  "vehicle \<Rightarrow> (string \<times> (string \<times> abstract_lane list) list) list \<Rightarrow>
   lane_index list \<times> real list \<Rightarrow> lane_index list \<times> real list" where
  "from_loop v [] acc = acc"
| "from_loop v ((from, to_dict) # g) acc = from_loop v g (to_loop v from to_dict acc)"

definition lane_distance_lists :: "vehicle \<Rightarrow> lane_index list \<times> real list" where
  "lane_distance_lists v = from_loop v (graph (network (vehicle_road v))) ([], [])"

definition lane_distance :: "vehicle \<Rightarrow> real list" where
  "lane_distance v = (let (indexes, distances) = lane_distance_lists v in distances)"

text \<open>The lane segments of a graph, counted.\<close>

definition lane_segments :: "(string \<times> (string \<times> abstract_lane list) list) list \<Rightarrow> nat" where
  "lane_segments g = sum_list (map (\<lambda>(from, to_dict). sum_list (map (\<lambda>(to, lanes). length lanes) to_dict)) g)"

definition DevHighway_reset :: "road \<Rightarrow> vehicle \<Rightarrow> 'e dev_env_scheme \<Rightarrow> 'e dev_env_scheme" where
  "DevHighway_reset new_road new_vehicle self =
     (HighwayEnv_reset new_road new_vehicle self)
       \<lparr>previous_steering := 0, previous_acceleration := 0\<rparr>"

section \<open>The specification's right-lane quotient\<close>


section \<open>An example scene\<close>

text \<open>
  A straight road from node \<open>0\<close> to node \<open>1\<close> with two lanes, four units apart, and a
  vehicle on the first lane, one unit off its centre line, driving at speed 25 along
  the road.
\<close>

definition straight_lane :: "real \<Rightarrow> abstract_lane" where
  "straight_lane y0 =
     \<lparr>local_coordinates = (\<lambda>p. (fst p, snd p - y0)),
      distance_with_heading = (\<lambda>p h. \<bar>snd p - y0\<bar> + 20 * \<bar>h\<bar>)\<rparr>"

definition example_network :: road_network where
  "example_network =
     \<lparr>graph = [(''0'', [(''1'', [straight_lane 0, straight_lane 4])])],
      all_side_lanes = (\<lambda>i. [(fst i, fst (snd i), 0), (fst i, fst (snd i), 1)])\<rparr>"

definition example_vehicle :: vehicle where
  "example_vehicle =
     \<lparr>position = (10, 1), heading = 0, speed = 25,
      lane_index = (''0'', ''1'', 0), target_lane_index = None,
      lane = straight_lane 0, crashed = False, on_road = True,
      vehicle_road = \<lparr>network = example_network\<rparr>\<rparr>"

text \<open>A configuration with no entry at all, as the base of the default configurations.\<close>

definition empty_config :: config where
  "empty_config =
     \<lparr>entries = Map.empty, observation_type = [], action_type = [],
      initial_lane_id = None, reward_speed_range = (0, 1),
      normalize_reward = False, offroad_terminal = False\<rparr>"

definition example_env :: env where
  "example_env =
     \<lparr>config = HighwayEnv_default_config empty_config,
      road = \<lparr>network = example_network\<rparr>, vehicle = example_vehicle\<rparr>"

definition example_dev_env :: dev_env where
  "example_dev_env =
     \<lparr>config = DevHighway_default_config empty_config,
      road = \<lparr>network = example_network\<rparr>, vehicle = example_vehicle,
      previous_steering = 0, previous_acceleration = 0\<rparr>"

section \<open>Unfolding and evaluation\<close>

lemmas example_defs =
  straight_lane_def example_network_def example_vehicle_def empty_config_def
  example_env_def example_dev_env_def HighwayEnv_default_config_def
  DevHighway_default_config_def

lemmas lookup_defs = dict_get_def dict_getitem_def bind_err_def py_getitem_def

lemmas reward_defs =
  HighwayEnv_rewards_def HighwayEnv_reward_def weighted_sum_def lmap_def clip_def
  lane_number_def lane_id_def

lemmas eval_defs = example_defs lookup_defs reward_defs DevHighway_rewards_def
  DevHighway_reward_def Let_def

text \<open>
  What the extended \<open>_rewards\<close> returns when the three entries it reads by strict
  lookup are configured and the action has its two components.
\<close>

lemma DevHighway_rewards_returns:
  assumes "entries (config self) ''abrupt_steering_penalty'' = Some ws"
    and "entries (config self) ''abrupt_acceleration_penalty'' = Some wa"
    and "entries (config self) ''lane_centering_cost'' = Some cost"
    and "1 < length action"
  shows "DevHighway_rewards self action =
     (Inr [(''collision_reward'', if crashed (vehicle self) then - 1 else 0),
           (''right_lane_reward'',
              real_of_int (lane_number (vehicle self)) /
              real_of_int (max (int (length (all_side_lanes (network (road self))
                                               (lane_index (vehicle self)))) - 1) 1)),
           (''high_speed_reward'',
              clip (lmap (speed (vehicle self) * cos (heading (vehicle self)))
                      (reward_speed_range (config self)) (0, 1)) 0 1),
           (''on_road_reward'', of_bool (on_road (vehicle self))),
           (''lane_centering_reward'',
              1 / (1 + cost * (snd (local_coordinates (lane (vehicle self))
                                      (position (vehicle self))))\<^sup>2)),
           (''abrupt_steering_penalty'', - (ws * \<bar>action ! 1 - previous_steering self\<bar>)),
           (''abrupt_acceleration_penalty'',
              - (wa * \<bar>action ! 0 - previous_acceleration self\<bar>))],
      self\<lparr>previous_steering := action ! 1, previous_acceleration := action ! 0\<rparr>)"
proof -
  from assms(4) have "0 < length action" by arith
  with assms show ?thesis
    by (simp add: DevHighway_rewards_def dict_getitem_def py_getitem_def Let_def)
qed

text \<open>The call returns a dict only if those entries and components are there.\<close>

lemma DevHighway_rewards_Inr:
  assumes "DevHighway_rewards self action = (Inr rewards, self')"
  shows "\<exists>ws wa cost. entries (config self) ''abrupt_steering_penalty'' = Some ws
     \<and> entries (config self) ''abrupt_acceleration_penalty'' = Some wa
     \<and> entries (config self) ''lane_centering_cost'' = Some cost
     \<and> 1 < length action"
  using assms
  by (auto simp add: DevHighway_rewards_def dict_getitem_def py_getitem_def Let_def
           split: option.splits if_splits)

text \<open>\<open>_reward\<close> changes the object only through its call of \<open>_rewards\<close>.\<close>

lemma DevHighway_reward_state:
  "snd (DevHighway_reward self action) = snd (DevHighway_rewards self action)"
  by (simp add: DevHighway_reward_def Let_def split: prod.splits sum.splits)

text \<open>The aggregate reward of the base policy, with and without normalization.\<close>

lemma HighwayEnv_reward_normalized:
  assumes "normalize_reward (config self)"
    and "entries (config self) ''collision_reward'' = Some c"
    and "entries (config self) ''high_speed_reward'' = Some h"
    and "entries (config self) ''right_lane_reward'' = Some r"
  shows "HighwayEnv_reward self a =
           Inr (lmap (weighted_sum (config self) (HighwayEnv_rewards self a)) (c, h + r) (0, 1)
                * of_bool (on_road (vehicle self)))"
proof -
  have g: "map_of (HighwayEnv_rewards self a) ''on_road_reward''
             = Some (of_bool (on_road (vehicle self)))"
    by (simp add: HighwayEnv_rewards_def Let_def)
  from assms g show ?thesis
    by (simp add: HighwayEnv_reward_def lookup_defs Let_def)
qed

lemma HighwayEnv_reward_plain:
  assumes "\<not> normalize_reward (config self)"
  shows "HighwayEnv_reward self a =
           Inr (weighted_sum (config self) (HighwayEnv_rewards self a)
                * of_bool (on_road (vehicle self)))"
proof -
  have g: "map_of (HighwayEnv_rewards self a) ''on_road_reward''
             = Some (of_bool (on_road (vehicle self)))"
    by (simp add: HighwayEnv_rewards_def Let_def)
  from assms g show ?thesis
    by (simp add: HighwayEnv_reward_def lookup_defs Let_def)
qed

text \<open>The gate component and the configuration after the extended \<open>_rewards\<close>.\<close>

lemma DevHighway_rewards_gate:
  assumes "DevHighway_rewards dev action = (Inr rewards, dev')"
  shows "map_of rewards ''on_road_reward'' = Some (of_bool (on_road (vehicle dev)))
       \<and> config dev' = config dev"
proof -
  from DevHighway_rewards_Inr [OF assms] obtain ws wa cost where
    k: "entries (config dev) ''abrupt_steering_penalty'' = Some ws"
       "entries (config dev) ''abrupt_acceleration_penalty'' = Some wa"
       "entries (config dev) ''lane_centering_cost'' = Some cost"
       "1 < length action" by blast
  from DevHighway_rewards_returns [OF k] assms show ?thesis by auto
qed

text \<open>The aggregate reward of the extended policy, with and without normalization.\<close>

lemma DevHighway_reward_normalized:
  assumes "DevHighway_rewards dev action = (Inr rewards, dev')"
    and "normalize_reward (config dev)"
    and "entries (config dev) ''collision_reward'' = Some c"
    and "entries (config dev) ''high_speed_reward'' = Some h"
    and "entries (config dev) ''right_lane_reward'' = Some r"
    and "entries (config dev) ''lane_centering_reward'' = Some lc"
    and "entries (config dev) ''abrupt_steering_penalty'' = Some s"
    and "entries (config dev) ''abrupt_acceleration_penalty'' = Some ac"
  shows "DevHighway_reward dev action =
           (Inr (lmap (weighted_sum (config dev) rewards) (c, h + r + lc + s + ac) (0, 1)
                 * of_bool (on_road (vehicle dev))), dev')"
  using assms DevHighway_rewards_gate [OF assms(1)]
  by (simp add: DevHighway_reward_def lookup_defs Let_def)

lemma DevHighway_reward_plain:
  assumes "DevHighway_rewards dev action = (Inr rewards, dev')"
    and "\<not> normalize_reward (config dev)"
  shows "DevHighway_reward dev action =
           (Inr (weighted_sum (config dev) rewards * of_bool (on_road (vehicle dev))), dev')"
  using assms DevHighway_rewards_gate [OF assms(1)]
  by (simp add: DevHighway_reward_def lookup_defs Let_def)

text \<open>The ends of the source range go to 0 and 1.\<close>

lemma lmap_unit_lower: "lmap c (c, u) (0, 1) = 0"
  by (simp add: lmap_def)

lemma lmap_unit_upper: "c \<noteq> u \<Longrightarrow> lmap u (c, u) (0, 1) = 1"
  by (simp add: lmap_def)

text \<open>The entries of the extended policy's default configuration that the rewards read.\<close>

lemma DevHighway_default_entries:
  "entries (DevHighway_default_config base) ''collision_reward'' = Some (- 1)"
  "entries (DevHighway_default_config base) ''right_lane_reward'' = Some 0.1"
  "entries (DevHighway_default_config base) ''high_speed_reward'' = Some 0.35"
  "entries (DevHighway_default_config base) ''lane_centering_reward'' = Some 0.01"
  "entries (DevHighway_default_config base) ''abrupt_steering_penalty'' = Some 0.019"
  "entries (DevHighway_default_config base) ''abrupt_acceleration_penalty'' = Some 0.001"
  "entries (DevHighway_default_config base) ''lane_centering_cost'' = Some 4"
  "entries (DevHighway_default_config base) ''on_road_reward'' = entries base ''on_road_reward''"
  by (simp_all add: DevHighway_default_config_def HighwayEnv_default_config_def Let_def)

text \<open>The lane number does not depend on the crash flag.\<close>

lemma lane_number_crashed: "lane_number (v\<lparr>crashed := b\<rparr>) = lane_number v"
  by (simp add: lane_number_def split: option.splits)

text \<open>A name without an entry adds nothing to the weighted sum.\<close>

lemma weighted_sum_unconfigured:
  "entries cfg name = None \<Longrightarrow>
     weighted_sum cfg rewards = weighted_sum cfg (filter (\<lambda>(n, r). n \<noteq> name) rewards)"
  by (induction rewards) (auto simp add: weighted_sum_def dict_get_def)

text \<open>When the extended \<open>_rewards\<close> returns a dict rather than raises.\<close>

lemma DevHighway_rewards_returns_iff:
  "\<not> isl (fst (DevHighway_rewards dev action)) \<longleftrightarrow>
     {''abrupt_steering_penalty'', ''abrupt_acceleration_penalty'', ''lane_centering_cost''}
       \<subseteq> dom (entries (config dev)) \<and> 1 < length action"
proof
  assume "\<not> isl (fst (DevHighway_rewards dev action))"
  then obtain rewards dev' where "DevHighway_rewards dev action = (Inr rewards, dev')"
    by (cases "DevHighway_rewards dev action"; cases "fst (DevHighway_rewards dev action)") auto
  from DevHighway_rewards_Inr [OF this]
  show "{''abrupt_steering_penalty'', ''abrupt_acceleration_penalty'', ''lane_centering_cost''}
       \<subseteq> dom (entries (config dev)) \<and> 1 < length action" by auto
next
  assume "{''abrupt_steering_penalty'', ''abrupt_acceleration_penalty'', ''lane_centering_cost''}
       \<subseteq> dom (entries (config dev)) \<and> 1 < length action"
  then obtain ws wa cost where
    k: "entries (config dev) ''abrupt_steering_penalty'' = Some ws"
       "entries (config dev) ''abrupt_acceleration_penalty'' = Some wa"
       "entries (config dev) ''lane_centering_cost'' = Some cost"
       "1 < length action" by auto
  from DevHighway_rewards_returns [OF k] show "\<not> isl (fst (DevHighway_rewards dev action))"
    by simp
qed

text \<open>Each loop of \<open>lane_distance\<close> adds one entry to both lists for every lane it visits.\<close>

lemma lanes_loop_lengths:
  "length (fst (lanes_loop v from to i lanes acc)) = length (fst acc) + length lanes
   \<and> length (snd (lanes_loop v from to i lanes acc)) = length (snd acc) + length lanes"
proof (induction lanes arbitrary: i acc)
  case Nil
  show ?case by simp
next
  case (Cons l lanes)
  obtain indexes distances where "acc = (indexes, distances)" by (cases acc)
  with Cons show ?case by simp
qed

lemma to_loop_lengths:
  "length (fst (to_loop v from to_dict acc))
     = length (fst acc) + sum_list (map (\<lambda>(to, lanes). length lanes) to_dict)
   \<and> length (snd (to_loop v from to_dict acc))
     = length (snd acc) + sum_list (map (\<lambda>(to, lanes). length lanes) to_dict)"
proof (induction to_dict arbitrary: acc)
  case Nil
  show ?case by simp
next
  case (Cons item to_dict)
  obtain to lanes where "item = (to, lanes)" by (cases item)
  with Cons lanes_loop_lengths show ?case by simp
qed

lemma from_loop_lengths:
  "length (fst (from_loop v g acc)) = length (fst acc) + lane_segments g
   \<and> length (snd (from_loop v g acc)) = length (snd acc) + lane_segments g"
proof (induction g arbitrary: acc)
  case Nil
  show ?case by (simp add: lane_segments_def)
next
  case (Cons item g)
  obtain "from" to_dict where "item = (from, to_dict)" by (cases item)
  with Cons to_loop_lengths show ?case by (simp add: lane_segments_def)
qed

lemma lane_distance_one_entry_per_segment:
  "length (fst (lane_distance_lists v)) = lane_segments (graph (network (vehicle_road v)))
   \<and> length (snd (lane_distance_lists v)) = lane_segments (graph (network (vehicle_road v)))
   \<and> lane_distance v = snd (lane_distance_lists v)"
  using from_loop_lengths [of v "graph (network (vehicle_road v))" "([], [])"]
  by (simp add: lane_distance_lists_def lane_distance_def split: prod.splits)




text \<open>
  An absent weight and a weight of 0 are the same to the weighted sum, and to the
  aggregate reward when no strict lookup reads the name.
\<close>

lemma weighted_sum_absent_or_zero:
  "weighted_sum (cfg\<lparr>entries := (entries cfg)(name := None)\<rparr>) rewards
     = weighted_sum (cfg\<lparr>entries := (entries cfg)(name \<mapsto> 0)\<rparr>) rewards"
  by (induction rewards) (auto simp add: weighted_sum_def dict_get_def)

lemma HighwayEnv_rewards_entries:
  "HighwayEnv_rewards (self\<lparr>config := (config self)\<lparr>entries := m\<rparr>\<rparr>) a = HighwayEnv_rewards self a"
  by (simp add: HighwayEnv_rewards_def)

lemma HighwayEnv_reward_absent_or_zero:
  assumes "name \<notin> {''collision_reward'', ''high_speed_reward'', ''right_lane_reward''}"
  shows "HighwayEnv_reward
           (self\<lparr>config := (config self)\<lparr>entries := (entries (config self))(name := None)\<rparr>\<rparr>) a
       = HighwayEnv_reward
           (self\<lparr>config := (config self)\<lparr>entries := (entries (config self))(name \<mapsto> 0)\<rparr>\<rparr>) a"
proof -
  from assms have k: "''collision_reward'' \<noteq> name" "''high_speed_reward'' \<noteq> name"
    "''right_lane_reward'' \<noteq> name" by auto
  show ?thesis
    unfolding HighwayEnv_reward_def HighwayEnv_rewards_entries Let_def
    by (simp add: weighted_sum_absent_or_zero dict_getitem_def k)
qed

lemma DevHighway_rewards_absent_or_zero:
  assumes "name \<notin> {''abrupt_steering_penalty'', ''abrupt_acceleration_penalty'',
                    ''lane_centering_cost''}"
  shows "fst (DevHighway_rewards
           (dev\<lparr>config := (config dev)\<lparr>entries := (entries (config dev))(name := None)\<rparr>\<rparr>) action)
       = fst (DevHighway_rewards
           (dev\<lparr>config := (config dev)\<lparr>entries := (entries (config dev))(name \<mapsto> 0)\<rparr>\<rparr>) action)"
proof -
  from assms have k: "''abrupt_steering_penalty'' \<noteq> name"
    "''abrupt_acceleration_penalty'' \<noteq> name" "''lane_centering_cost'' \<noteq> name" by auto
  show ?thesis
    by (simp add: DevHighway_rewards_def dict_getitem_def py_getitem_def Let_def k
          split: option.splits)
qed

lemma DevHighway_rewards_config:
  "config (snd (DevHighway_rewards dev action)) = config dev"
  by (simp add: DevHighway_rewards_def dict_getitem_def py_getitem_def Let_def
        split: option.splits)

lemma DevHighway_reward_fst:
  "fst (DevHighway_reward dev action) =
     (case fst (DevHighway_rewards dev action) of
        Inl e \<Rightarrow> Inl e
      | Inr rewards \<Rightarrow>
          bind_err
            (if normalize_reward (config dev) then
               bind_err (dict_getitem (entries (config dev)) ''collision_reward'') (\<lambda>collision.
               bind_err (dict_getitem (entries (config dev)) ''high_speed_reward'') (\<lambda>high_speed.
               bind_err (dict_getitem (entries (config dev)) ''right_lane_reward'') (\<lambda>right_lane.
               bind_err (dict_getitem (entries (config dev)) ''lane_centering_reward'') (\<lambda>lane_centering.
               bind_err (dict_getitem (entries (config dev)) ''abrupt_steering_penalty'') (\<lambda>abrupt_steering.
               bind_err (dict_getitem (entries (config dev)) ''abrupt_acceleration_penalty'') (\<lambda>abrupt_acceleration.
               Inr (lmap (weighted_sum (config dev) rewards)
                      (collision,
                       high_speed + right_lane + lane_centering + abrupt_steering
                         + abrupt_acceleration)
                      (0, 1))))))))
             else Inr (weighted_sum (config dev) rewards))
            (\<lambda>reward.
               bind_err (dict_getitem (map_of rewards) ''on_road_reward'') (\<lambda>on_road_reward.
               Inr (reward * on_road_reward))))"
proof (cases "DevHighway_rewards dev action")
  case (Pair result dev')
  from DevHighway_rewards_config [of dev action] Pair have c: "config dev' = config dev"
    by simp
  from Pair c show ?thesis
    by (cases result) (simp_all add: DevHighway_reward_def Let_def)
qed

lemma DevHighway_reward_absent_or_zero:
  assumes "name \<notin> {''collision_reward'', ''high_speed_reward'', ''right_lane_reward'',
                    ''lane_centering_reward'', ''abrupt_steering_penalty'',
                    ''abrupt_acceleration_penalty'', ''lane_centering_cost''}"
  shows "fst (DevHighway_reward
           (dev\<lparr>config := (config dev)\<lparr>entries := (entries (config dev))(name := None)\<rparr>\<rparr>) action)
       = fst (DevHighway_reward
           (dev\<lparr>config := (config dev)\<lparr>entries := (entries (config dev))(name \<mapsto> 0)\<rparr>\<rparr>) action)"
proof -
  from assms have k: "''collision_reward'' \<noteq> name" "''high_speed_reward'' \<noteq> name"
    "''right_lane_reward'' \<noteq> name" "''lane_centering_reward'' \<noteq> name"
    "''abrupt_steering_penalty'' \<noteq> name" "''abrupt_acceleration_penalty'' \<noteq> name"
    by auto
  from assms have "name \<notin> {''abrupt_steering_penalty'', ''abrupt_acceleration_penalty'',
                    ''lane_centering_cost''}" by auto
  note r = DevHighway_rewards_absent_or_zero [OF this, of dev action]
  show ?thesis
    unfolding DevHighway_reward_fst r
    by (simp add: weighted_sum_absent_or_zero dict_getitem_def k split: sum.splits)
qed

text \<open>The strict lookups raise KeyError for an absent weight.\<close>

lemma HighwayEnv_reward_raises:
  assumes "normalize_reward (config self)"
    and "entries (config self) ''collision_reward'' = None"
  shows "HighwayEnv_reward self a = Inl (KeyError ''collision_reward'')"
  using assms by (simp add: HighwayEnv_reward_def lookup_defs Let_def)

lemma DevHighway_reward_raises:
  assumes "entries (config dev) ''abrupt_steering_penalty'' = None"
  shows "DevHighway_reward dev action = (Inl (KeyError ''abrupt_steering_penalty''), dev)"
  using assms
  by (simp add: DevHighway_reward_def DevHighway_rewards_def dict_getitem_def Let_def)

section \<open>Termination\<close>

text \<open>
  C7. \<open>_is_terminated\<close> is true exactly when the ego vehicle is crashed, or
  \<open>offroad_terminal\<close> is configured true and the vehicle is not on the road; in
  particular it is true whenever the vehicle is crashed, whatever \<open>offroad_terminal\<close>
  and \<open>on_road\<close> are.
\<close>

theorem is_terminated_iff:
  "(HighwayEnv_is_terminated self \<longleftrightarrow>
      crashed (vehicle self) \<or> (offroad_terminal (config self) \<and> \<not> on_road (vehicle self)))
   \<and> (crashed (vehicle self) \<longrightarrow> HighwayEnv_is_terminated self)"
  by (simp add: HighwayEnv_is_terminated_def)

theorem is_terminated_iff_witness:
  "crashed (vehicle (example_env\<lparr>vehicle := example_vehicle\<lparr>crashed := True\<rparr>\<rparr>))
   \<and> HighwayEnv_is_terminated (example_env\<lparr>vehicle := example_vehicle\<lparr>crashed := True\<rparr>\<rparr>)
   \<and> \<not> HighwayEnv_is_terminated example_env
   \<and> HighwayEnv_is_terminated
        (example_env\<lparr>config := (config example_env)\<lparr>offroad_terminal := True\<rparr>,
                     vehicle := example_vehicle\<lparr>on_road := False\<rparr>\<rparr>)"
  using is_terminated_iff [of "example_env\<lparr>vehicle := example_vehicle\<lparr>crashed := True\<rparr>\<rparr>"]
    is_terminated_iff [of example_env]
    is_terminated_iff
      [of "example_env\<lparr>config := (config example_env)\<lparr>offroad_terminal := True\<rparr>,
                       vehicle := example_vehicle\<lparr>on_road := False\<rparr>\<rparr>"]
  by (simp add: example_defs)

section \<open>The components\<close>

text \<open>
  C6. The base policy's \<open>_rewards\<close> gives the collision component as 1 when the vehicle is
  crashed and 0 otherwise; the extended policy's \<open>_rewards\<close>, when it returns, gives it
  as -1 when crashed and 0 otherwise.
\<close>

theorem collision_reward_encodings:
  "map_of (HighwayEnv_rewards self a) ''collision_reward''
     = Some (if crashed (vehicle self) then 1 else 0)
   \<and> (DevHighway_rewards dev action = (Inr rewards, dev') \<longrightarrow>
        map_of rewards ''collision_reward''
          = Some (if crashed (vehicle dev) then - 1 else 0))"
proof (intro conjI impI)
  show "map_of (HighwayEnv_rewards self a) ''collision_reward''
     = Some (if crashed (vehicle self) then 1 else 0)"
    by (simp add: HighwayEnv_rewards_def Let_def)
next
  assume r: "DevHighway_rewards dev action = (Inr rewards, dev')"
  from DevHighway_rewards_Inr [OF r] obtain ws wa cost where
    k: "entries (config dev) ''abrupt_steering_penalty'' = Some ws"
       "entries (config dev) ''abrupt_acceleration_penalty'' = Some wa"
       "entries (config dev) ''lane_centering_cost'' = Some cost"
       "1 < length action" by blast
  from DevHighway_rewards_returns [OF k] r
  show "map_of rewards ''collision_reward'' = Some (if crashed (vehicle dev) then - 1 else 0)"
    by auto
qed

theorem collision_reward_encodings_witness:
  "DevHighway_rewards (example_dev_env\<lparr>vehicle := example_vehicle\<lparr>crashed := True\<rparr>\<rparr>) [1, 0.5]
     = (Inr [(''collision_reward'', - 1), (''right_lane_reward'', 0),
             (''high_speed_reward'', 0.5), (''on_road_reward'', 1),
             (''lane_centering_reward'', 0.2), (''abrupt_steering_penalty'', - 0.0095),
             (''abrupt_acceleration_penalty'', - 0.001)],
        example_dev_env\<lparr>vehicle := example_vehicle\<lparr>crashed := True\<rparr>,
                        previous_steering := 0.5, previous_acceleration := 1\<rparr>)
   \<and> map_of [(''collision_reward'', - 1), (''right_lane_reward'', 0),
             (''high_speed_reward'', 0.5), (''on_road_reward'', 1),
             (''lane_centering_reward'', 0.2), (''abrupt_steering_penalty'', - 0.0095),
             (''abrupt_acceleration_penalty'', - 0.001 :: real)] ''collision_reward''
       = Some (- 1)
   \<and> map_of (HighwayEnv_rewards (example_env\<lparr>vehicle := example_vehicle\<lparr>crashed := True\<rparr>\<rparr>) ())
        ''collision_reward'' = Some 1"
  using collision_reward_encodings
    [of "example_env\<lparr>vehicle := example_vehicle\<lparr>crashed := True\<rparr>\<rparr>" "()"
        "example_dev_env\<lparr>vehicle := example_vehicle\<lparr>crashed := True\<rparr>\<rparr>" "[1, 0.5]"]
  by (simp add: example_defs lookup_defs DevHighway_rewards_def lmap_def clip_def
        lane_number_def lane_id_def Let_def)




section \<open>The aggregate reward\<close>

text \<open>
  C3. With normalization enabled, the aggregate reward of either policy is the on-road
  gate times the linear map of the weighted sum of the components from the range
  [\<open>collision_reward\<close> weight, U] to [0, 1]. U is the sum of the \<open>high_speed_reward\<close>
  and \<open>right_lane_reward\<close> weights in the base policy; the extended policy adds the
  \<open>lane_centering_reward\<close>, \<open>abrupt_steering_penalty\<close> and
  \<open>abrupt_acceleration_penalty\<close> weights to it. The collision weight is the lower
  end of the range: it goes to 0, and U goes to 1.
\<close>

theorem normalized_reward_is_lmap:
  assumes "normalize_reward (config self)"
    and "entries (config self) ''collision_reward'' = Some c"
    and "entries (config self) ''high_speed_reward'' = Some h"
    and "entries (config self) ''right_lane_reward'' = Some r"
    and "DevHighway_rewards dev action = (Inr rewards, dev')"
    and "normalize_reward (config dev)"
    and "entries (config dev) ''collision_reward'' = Some c'"
    and "entries (config dev) ''high_speed_reward'' = Some h'"
    and "entries (config dev) ''right_lane_reward'' = Some r'"
    and "entries (config dev) ''lane_centering_reward'' = Some lc"
    and "entries (config dev) ''abrupt_steering_penalty'' = Some s"
    and "entries (config dev) ''abrupt_acceleration_penalty'' = Some ac"
  shows "HighwayEnv_reward self a =
           Inr (lmap (weighted_sum (config self) (HighwayEnv_rewards self a)) (c, h + r) (0, 1)
                * of_bool (on_road (vehicle self)))
       \<and> fst (DevHighway_reward dev action) =
           Inr (lmap (weighted_sum (config dev) rewards) (c', h' + r' + lc + s + ac) (0, 1)
                * of_bool (on_road (vehicle dev)))
       \<and> lmap c (c, h + r) (0, 1) = 0
       \<and> lmap c' (c', h' + r' + lc + s + ac) (0, 1) = 0
       \<and> (c \<noteq> h + r \<longrightarrow> lmap (h + r) (c, h + r) (0, 1) = 1)
       \<and> (c' \<noteq> h' + r' + lc + s + ac \<longrightarrow>
            lmap (h' + r' + lc + s + ac) (c', h' + r' + lc + s + ac) (0, 1) = 1)"
proof -
  note b = HighwayEnv_reward_normalized [OF assms(1-4)]
  note d = DevHighway_reward_normalized [OF assms(5-12)]
  show ?thesis
    by (simp add: b d lmap_unit_lower lmap_unit_upper)
qed

theorem normalized_reward_is_lmap_witness:
  "normalize_reward (config example_env)
   \<and> entries (config example_env) ''collision_reward'' = Some (- 1)
   \<and> entries (config example_env) ''high_speed_reward'' = Some 0.4
   \<and> entries (config example_env) ''right_lane_reward'' = Some 0.1
   \<and> DevHighway_rewards example_dev_env [1, 0.5]
       = (Inr [(''collision_reward'', 0), (''right_lane_reward'', 0),
               (''high_speed_reward'', 0.5), (''on_road_reward'', 1),
               (''lane_centering_reward'', 0.2), (''abrupt_steering_penalty'', - 0.0095),
               (''abrupt_acceleration_penalty'', - 0.001)],
          example_dev_env\<lparr>previous_steering := 0.5, previous_acceleration := 1\<rparr>)
   \<and> normalize_reward (config example_dev_env)
   \<and> entries (config example_dev_env) ''collision_reward'' = Some (- 1)
   \<and> entries (config example_dev_env) ''high_speed_reward'' = Some 0.35
   \<and> entries (config example_dev_env) ''right_lane_reward'' = Some 0.1
   \<and> entries (config example_dev_env) ''lane_centering_reward'' = Some 0.01
   \<and> entries (config example_dev_env) ''abrupt_steering_penalty'' = Some 0.019
   \<and> entries (config example_dev_env) ''abrupt_acceleration_penalty'' = Some 0.001
   \<and> weighted_sum (config example_env) (HighwayEnv_rewards example_env ()) = 0.2
   \<and> HighwayEnv_reward example_env () = Inr (lmap 0.2 (- 1, 0.4 + 0.1) (0, 1) * 1)
   \<and> HighwayEnv_reward example_env () = Inr 0.8
   \<and> fst (DevHighway_reward example_dev_env [1, 0.5])
       = Inr (lmap 0.1768185 (- 1, 0.35 + 0.1 + 0.01 + 0.019 + 0.001) (0, 1) * 1)
   \<and> (- 1 :: real) \<noteq> 0.4 + 0.1
   \<and> lmap (- 1) (- 1, 0.4 + 0.1) (0, 1) = 0
   \<and> lmap (0.4 + 0.1) (- 1, 0.4 + 0.1) (0, 1) = 1"
proof -
  have b1: "normalize_reward (config example_env)" by (simp add: example_defs)
  have b2: "entries (config example_env) ''collision_reward'' = Some (- 1)"
    by (simp add: example_defs)
  have b3: "entries (config example_env) ''high_speed_reward'' = Some 0.4"
    by (simp add: example_defs)
  have b4: "entries (config example_env) ''right_lane_reward'' = Some 0.1"
    by (simp add: example_defs)
  have d0: "DevHighway_rewards example_dev_env [1, 0.5]
       = (Inr [(''collision_reward'', 0), (''right_lane_reward'', 0),
               (''high_speed_reward'', 0.5), (''on_road_reward'', 1),
               (''lane_centering_reward'', 0.2), (''abrupt_steering_penalty'', - 0.0095),
               (''abrupt_acceleration_penalty'', - 0.001)],
          example_dev_env\<lparr>previous_steering := 0.5, previous_acceleration := 1\<rparr>)"
    by (simp add: eval_defs)
  have d1: "normalize_reward (config example_dev_env)" by (simp add: example_defs)
  have d2: "entries (config example_dev_env) ''collision_reward'' = Some (- 1)"
    by (simp add: example_defs)
  have d3: "entries (config example_dev_env) ''high_speed_reward'' = Some 0.35"
    by (simp add: example_defs)
  have d4: "entries (config example_dev_env) ''right_lane_reward'' = Some 0.1"
    by (simp add: example_defs)
  have d5: "entries (config example_dev_env) ''lane_centering_reward'' = Some 0.01"
    by (simp add: example_defs)
  have d6: "entries (config example_dev_env) ''abrupt_steering_penalty'' = Some 0.019"
    by (simp add: example_defs)
  have d7: "entries (config example_dev_env) ''abrupt_acceleration_penalty'' = Some 0.001"
    by (simp add: example_defs)
  have w: "weighted_sum (config example_env) (HighwayEnv_rewards example_env ()) = 0.2"
    by (simp add: eval_defs)
  have w': "weighted_sum (config example_dev_env)
              [(''collision_reward'', 0), (''right_lane_reward'', 0),
               (''high_speed_reward'', 0.5), (''on_road_reward'', 1),
               (''lane_centering_reward'', 0.2), (''abrupt_steering_penalty'', - 0.0095),
               (''abrupt_acceleration_penalty'', - 0.001)] = 0.1768185"
    by (simp add: example_defs weighted_sum_def dict_get_def)
  have g: "on_road (vehicle example_env)" "on_road (vehicle example_dev_env)"
    by (simp_all add: example_defs)
  note t = normalized_reward_is_lmap [OF b1 b2 b3 b4 d0 d1 d2 d3 d4 d5 d6 d7, of "()"]
  from t have r1: "HighwayEnv_reward example_env () = Inr (lmap 0.2 (- 1, 0.4 + 0.1) (0, 1) * 1)"
    by (simp only: w g of_bool_eq)
  from t have r2: "fst (DevHighway_reward example_dev_env [1, 0.5])
       = Inr (lmap 0.1768185 (- 1, 0.35 + 0.1 + 0.01 + 0.019 + 0.001) (0, 1) * 1)"
    by (simp only: w' g of_bool_eq)
  have r3: "HighwayEnv_reward example_env () = Inr 0.8"
    by (simp add: r1 lmap_def)
  have e: "(- 1 :: real) \<noteq> 0.4 + 0.1" by simp
  note e1 = t [THEN conjunct2, THEN conjunct2, THEN conjunct1]
  note e2 = t [THEN conjunct2, THEN conjunct2, THEN conjunct2, THEN conjunct2,
               THEN conjunct1, THEN mp, OF e]
  show ?thesis
    by (intro conjI) (rule b1 b2 b3 b4 d0 d1 d2 d3 d4 d5 d6 d7 w r1 r2 r3 e e1 e2)+
qed

text \<open>
  C4. When the vehicle is not on the road, \<open>_reward\<close> returns exactly 0 in both
  policies, whatever the other components are and whether or not normalization is
  enabled. The hypotheses say that the call returns and that no quotient of the
  computation has a zero divisor, where numpy's result would not be a number: the
  speed range is not of width zero, the divisor of \<open>lane_centering_reward\<close> is not zero,
  and, when normalization is enabled, the weights of its range are configured and the
  range is not of width zero.
\<close>

theorem off_road_reward_is_zero:
  assumes "\<not> on_road (vehicle self)"
    and "fst (reward_speed_range (config self)) \<noteq> snd (reward_speed_range (config self))"
    and "normalize_reward (config self) \<Longrightarrow>
           \<exists>c h r. entries (config self) ''collision_reward'' = Some c
                 \<and> entries (config self) ''high_speed_reward'' = Some h
                 \<and> entries (config self) ''right_lane_reward'' = Some r
                 \<and> c \<noteq> h + r"
    and "\<not> on_road (vehicle dev)"
    and "DevHighway_rewards dev action = (Inr rewards, dev')"
    and "fst (reward_speed_range (config dev)) \<noteq> snd (reward_speed_range (config dev))"
    and "\<exists>cost. entries (config dev) ''lane_centering_cost'' = Some cost
              \<and> 1 + cost * (snd (local_coordinates (lane (vehicle dev))
                                     (position (vehicle dev))))\<^sup>2 \<noteq> 0"
    and "normalize_reward (config dev) \<Longrightarrow>
           \<exists>c h r lc s ac. entries (config dev) ''collision_reward'' = Some c
                 \<and> entries (config dev) ''high_speed_reward'' = Some h
                 \<and> entries (config dev) ''right_lane_reward'' = Some r
                 \<and> entries (config dev) ''lane_centering_reward'' = Some lc
                 \<and> entries (config dev) ''abrupt_steering_penalty'' = Some s
                 \<and> entries (config dev) ''abrupt_acceleration_penalty'' = Some ac
                 \<and> c \<noteq> h + r + lc + s + ac"
  shows "HighwayEnv_reward self a = Inr 0 \<and> DevHighway_reward dev action = (Inr 0, dev')"
proof (intro conjI)
  show "HighwayEnv_reward self a = Inr 0"
  proof (cases "normalize_reward (config self)")
    case True
    from assms(3) [OF True] obtain c h r where
      "entries (config self) ''collision_reward'' = Some c"
      "entries (config self) ''high_speed_reward'' = Some h"
      "entries (config self) ''right_lane_reward'' = Some r"
      by (elim exE conjE)
    from HighwayEnv_reward_normalized [OF True this] assms(1) show ?thesis by simp
  next
    case False
    from HighwayEnv_reward_plain [OF False] assms(1) show ?thesis by simp
  qed
next
  show "DevHighway_reward dev action = (Inr 0, dev')"
  proof (cases "normalize_reward (config dev)")
    case True
    from assms(8) [OF True] obtain c h r lc s ac where
      "entries (config dev) ''collision_reward'' = Some c"
      "entries (config dev) ''high_speed_reward'' = Some h"
      "entries (config dev) ''right_lane_reward'' = Some r"
      "entries (config dev) ''lane_centering_reward'' = Some lc"
      "entries (config dev) ''abrupt_steering_penalty'' = Some s"
      "entries (config dev) ''abrupt_acceleration_penalty'' = Some ac"
      by (elim exE conjE)
    from DevHighway_reward_normalized [OF assms(5) True this] assms(4) show ?thesis by simp
  next
    case False
    from DevHighway_reward_plain [OF assms(5) False] assms(4) show ?thesis by simp
  qed
qed

theorem off_road_reward_is_zero_witness:
  "\<not> on_road (vehicle (example_env\<lparr>vehicle := example_vehicle\<lparr>on_road := False\<rparr>\<rparr>))
   \<and> fst (reward_speed_range (config (example_env\<lparr>vehicle := example_vehicle\<lparr>on_road := False\<rparr>\<rparr>)))
       \<noteq> snd (reward_speed_range (config (example_env\<lparr>vehicle := example_vehicle\<lparr>on_road := False\<rparr>\<rparr>)))
   \<and> normalize_reward (config (example_env\<lparr>vehicle := example_vehicle\<lparr>on_road := False\<rparr>\<rparr>))
   \<and> entries (config (example_env\<lparr>vehicle := example_vehicle\<lparr>on_road := False\<rparr>\<rparr>))
        ''collision_reward'' = Some (- 1)
   \<and> entries (config (example_env\<lparr>vehicle := example_vehicle\<lparr>on_road := False\<rparr>\<rparr>))
        ''high_speed_reward'' = Some 0.4
   \<and> entries (config (example_env\<lparr>vehicle := example_vehicle\<lparr>on_road := False\<rparr>\<rparr>))
        ''right_lane_reward'' = Some 0.1
   \<and> (- 1 :: real) \<noteq> 0.4 + 0.1
   \<and> \<not> on_road (vehicle (example_dev_env\<lparr>vehicle := example_vehicle\<lparr>on_road := False\<rparr>\<rparr>))
   \<and> DevHighway_rewards (example_dev_env\<lparr>vehicle := example_vehicle\<lparr>on_road := False\<rparr>\<rparr>) [1, 0.5]
       = (Inr [(''collision_reward'', 0), (''right_lane_reward'', 0),
               (''high_speed_reward'', 0.5), (''on_road_reward'', 0),
               (''lane_centering_reward'', 0.2), (''abrupt_steering_penalty'', - 0.0095),
               (''abrupt_acceleration_penalty'', - 0.001)],
          example_dev_env\<lparr>vehicle := example_vehicle\<lparr>on_road := False\<rparr>,
                          previous_steering := 0.5, previous_acceleration := 1\<rparr>)
   \<and> fst (reward_speed_range (config (example_dev_env\<lparr>vehicle := example_vehicle\<lparr>on_road := False\<rparr>\<rparr>)))
       \<noteq> snd (reward_speed_range (config (example_dev_env\<lparr>vehicle := example_vehicle\<lparr>on_road := False\<rparr>\<rparr>)))
   \<and> entries (config (example_dev_env\<lparr>vehicle := example_vehicle\<lparr>on_road := False\<rparr>\<rparr>))
        ''lane_centering_cost'' = Some 4
   \<and> 1 + 4 * (snd (local_coordinates
                      (lane (vehicle (example_dev_env\<lparr>vehicle := example_vehicle\<lparr>on_road := False\<rparr>\<rparr>)))
                      (position (vehicle (example_dev_env\<lparr>vehicle := example_vehicle\<lparr>on_road := False\<rparr>\<rparr>)))))\<^sup>2
       \<noteq> (0 :: real)
   \<and> normalize_reward (config (example_dev_env\<lparr>vehicle := example_vehicle\<lparr>on_road := False\<rparr>\<rparr>))
   \<and> (- 1 :: real) \<noteq> 0.35 + 0.1 + 0.01 + 0.019 + 0.001
   \<and> HighwayEnv_reward (example_env\<lparr>vehicle := example_vehicle\<lparr>on_road := False\<rparr>\<rparr>) () = Inr 0
   \<and> DevHighway_reward (example_dev_env\<lparr>vehicle := example_vehicle\<lparr>on_road := False\<rparr>\<rparr>) [1, 0.5]
       = (Inr 0, example_dev_env\<lparr>vehicle := example_vehicle\<lparr>on_road := False\<rparr>,
                          previous_steering := 0.5, previous_acceleration := 1\<rparr>)
   \<and> \<not> normalize_reward
         (config (example_env\<lparr>config := (config example_env)\<lparr>normalize_reward := False\<rparr>,
                              vehicle := example_vehicle\<lparr>on_road := False\<rparr>\<rparr>))
   \<and> HighwayEnv_reward
        (example_env\<lparr>config := (config example_env)\<lparr>normalize_reward := False\<rparr>,
                     vehicle := example_vehicle\<lparr>on_road := False\<rparr>\<rparr>) () = Inr 0"
proof -
  let ?e = "example_env\<lparr>vehicle := example_vehicle\<lparr>on_road := False\<rparr>\<rparr>"
  let ?d = "example_dev_env\<lparr>vehicle := example_vehicle\<lparr>on_road := False\<rparr>\<rparr>"
  let ?e' = "example_env\<lparr>config := (config example_env)\<lparr>normalize_reward := False\<rparr>,
                     vehicle := example_vehicle\<lparr>on_road := False\<rparr>\<rparr>"
  have g: "\<not> on_road (vehicle ?e)" "\<not> on_road (vehicle ?d)" "\<not> on_road (vehicle ?e')"
    by (simp_all add: example_defs)
  have sr: "fst (reward_speed_range (config ?e)) \<noteq> snd (reward_speed_range (config ?e))"
    "fst (reward_speed_range (config ?d)) \<noteq> snd (reward_speed_range (config ?d))"
    "fst (reward_speed_range (config ?e')) \<noteq> snd (reward_speed_range (config ?e'))"
    by (simp_all add: example_defs)
  have n: "normalize_reward (config ?e)" "normalize_reward (config ?d)"
    by (simp_all add: example_defs)
  have n': "\<not> normalize_reward (config ?e')" by (simp add: example_defs)
  have b: "entries (config ?e) ''collision_reward'' = Some (- 1)"
    "entries (config ?e) ''high_speed_reward'' = Some 0.4"
    "entries (config ?e) ''right_lane_reward'' = Some 0.1"
    by (simp_all add: example_defs)
  have bn: "(- 1 :: real) \<noteq> 0.4 + 0.1" by simp
  have d: "entries (config ?d) ''collision_reward'' = Some (- 1)"
    "entries (config ?d) ''high_speed_reward'' = Some 0.35"
    "entries (config ?d) ''right_lane_reward'' = Some 0.1"
    "entries (config ?d) ''lane_centering_reward'' = Some 0.01"
    "entries (config ?d) ''abrupt_steering_penalty'' = Some 0.019"
    "entries (config ?d) ''abrupt_acceleration_penalty'' = Some 0.001"
    by (simp_all add: example_defs)
  have dn: "(- 1 :: real) \<noteq> 0.35 + 0.1 + 0.01 + 0.019 + 0.001" by simp
  have lc: "entries (config ?d) ''lane_centering_cost'' = Some 4"
    by (simp add: example_defs)
  have ld: "1 + 4 * (snd (local_coordinates (lane (vehicle ?d)) (position (vehicle ?d))))\<^sup>2
              \<noteq> (0 :: real)"
    by (simp add: example_defs)
  have r: "DevHighway_rewards ?d [1, 0.5]
       = (Inr [(''collision_reward'', 0), (''right_lane_reward'', 0),
               (''high_speed_reward'', 0.5), (''on_road_reward'', 0),
               (''lane_centering_reward'', 0.2), (''abrupt_steering_penalty'', - 0.0095),
               (''abrupt_acceleration_penalty'', - 0.001)],
          example_dev_env\<lparr>vehicle := example_vehicle\<lparr>on_road := False\<rparr>,
                          previous_steering := 0.5, previous_acceleration := 1\<rparr>)"
    by (simp add: eval_defs)
  have hb: "\<exists>c h r. entries (config ?e) ''collision_reward'' = Some c
                 \<and> entries (config ?e) ''high_speed_reward'' = Some h
                 \<and> entries (config ?e) ''right_lane_reward'' = Some r
                 \<and> c \<noteq> h + r"
    by (intro exI conjI) (rule b bn)+
  have hb': "normalize_reward (config ?e') \<Longrightarrow>
           \<exists>c h r. entries (config ?e') ''collision_reward'' = Some c
                 \<and> entries (config ?e') ''high_speed_reward'' = Some h
                 \<and> entries (config ?e') ''right_lane_reward'' = Some r
                 \<and> c \<noteq> h + r"
    using n' by (rule notE)
  have hl: "\<exists>cost. entries (config ?d) ''lane_centering_cost'' = Some cost
              \<and> 1 + cost * (snd (local_coordinates (lane (vehicle ?d))
                                     (position (vehicle ?d))))\<^sup>2 \<noteq> 0"
    by (intro exI conjI) (rule lc ld)+
  have hd: "\<exists>c h r lc s ac. entries (config ?d) ''collision_reward'' = Some c
                 \<and> entries (config ?d) ''high_speed_reward'' = Some h
                 \<and> entries (config ?d) ''right_lane_reward'' = Some r
                 \<and> entries (config ?d) ''lane_centering_reward'' = Some lc
                 \<and> entries (config ?d) ''abrupt_steering_penalty'' = Some s
                 \<and> entries (config ?d) ''abrupt_acceleration_penalty'' = Some ac
                 \<and> c \<noteq> h + r + lc + s + ac"
    by (intro exI conjI) (rule d dn)+
  note t = off_road_reward_is_zero [OF g(1) sr(1) hb g(2) r sr(2) hl hd, of "()"]
  note t' = off_road_reward_is_zero [OF g(3) sr(3) hb' g(2) r sr(2) hl hd, of "()"]
  note c = t [THEN conjunct1] t [THEN conjunct2] t' [THEN conjunct1]
  show ?thesis
    by (intro conjI) (rule g sr n n' b bn lc ld dn r c)+
qed

text \<open>
  C9. Under the extended policy's default configuration, where the
  \<open>collision_reward\<close> weight is the inherited -1, the collision component is -1 for a
  crashed vehicle and 0 otherwise, so its term of the weighted sum is (-1) * (-1) = 1
  for a crashed vehicle: the weighted sum before normalization is greater by 1 than for
  the same state without the crash.
\<close>

theorem crash_raises_weighted_sum:
  assumes "config dev = DevHighway_default_config base" and "1 < length action"
  shows "\<exists>rewards_crashed rewards_safe.
           fst (DevHighway_rewards (dev\<lparr>vehicle := (vehicle dev)\<lparr>crashed := True\<rparr>\<rparr>) action)
             = Inr rewards_crashed
         \<and> fst (DevHighway_rewards (dev\<lparr>vehicle := (vehicle dev)\<lparr>crashed := False\<rparr>\<rparr>) action)
             = Inr rewards_safe
         \<and> dict_get (entries (config dev)) ''collision_reward'' 0 = - 1
         \<and> map_of rewards_crashed ''collision_reward'' = Some (- 1)
         \<and> map_of rewards_safe ''collision_reward'' = Some 0
         \<and> dict_get (entries (config dev)) ''collision_reward'' 0 * (- 1) = 1
         \<and> weighted_sum (config dev) rewards_crashed = weighted_sum (config dev) rewards_safe + 1
         \<and> weighted_sum (config dev) rewards_safe < weighted_sum (config dev) rewards_crashed"
proof -
  let ?c = "dev\<lparr>vehicle := (vehicle dev)\<lparr>crashed := True\<rparr>\<rparr>"
  let ?s = "dev\<lparr>vehicle := (vehicle dev)\<lparr>crashed := False\<rparr>\<rparr>"
  note e = DevHighway_default_entries [of base]
  have kc: "entries (config ?c) ''abrupt_steering_penalty'' = Some 0.019"
    "entries (config ?c) ''abrupt_acceleration_penalty'' = Some 0.001"
    "entries (config ?c) ''lane_centering_cost'' = Some 4"
    by (simp_all add: assms(1) e)
  have ks: "entries (config ?s) ''abrupt_steering_penalty'' = Some 0.019"
    "entries (config ?s) ''abrupt_acceleration_penalty'' = Some 0.001"
    "entries (config ?s) ''lane_centering_cost'' = Some 4"
    by (simp_all add: assms(1) e)
  note rc = DevHighway_rewards_returns [OF kc assms(2)]
  note rs = DevHighway_rewards_returns [OF ks assms(2)]
  show ?thesis
    unfolding rc rs fst_conv
    by (intro exI conjI, rule refl, rule refl)
       (simp_all add: weighted_sum_def dict_get_def lane_number_crashed assms(1) e)
qed

theorem crash_raises_weighted_sum_witness:
  "config example_dev_env = DevHighway_default_config empty_config
   \<and> 1 < length [1, 0.5 :: real]
   \<and> fst (DevHighway_rewards
            (example_dev_env\<lparr>vehicle := (vehicle example_dev_env)\<lparr>crashed := True\<rparr>\<rparr>) [1, 0.5])
       = Inr [(''collision_reward'', - 1), (''right_lane_reward'', 0),
              (''high_speed_reward'', 0.5), (''on_road_reward'', 1),
              (''lane_centering_reward'', 0.2), (''abrupt_steering_penalty'', - 0.0095),
              (''abrupt_acceleration_penalty'', - 0.001)]
   \<and> fst (DevHighway_rewards
            (example_dev_env\<lparr>vehicle := (vehicle example_dev_env)\<lparr>crashed := False\<rparr>\<rparr>) [1, 0.5])
       = Inr [(''collision_reward'', 0), (''right_lane_reward'', 0),
              (''high_speed_reward'', 0.5), (''on_road_reward'', 1),
              (''lane_centering_reward'', 0.2), (''abrupt_steering_penalty'', - 0.0095),
              (''abrupt_acceleration_penalty'', - 0.001)]
   \<and> weighted_sum (config example_dev_env)
        [(''collision_reward'', - 1), (''right_lane_reward'', 0),
         (''high_speed_reward'', 0.5), (''on_road_reward'', 1),
         (''lane_centering_reward'', 0.2), (''abrupt_steering_penalty'', - 0.0095),
         (''abrupt_acceleration_penalty'', - 0.001)] = 1.1768185
   \<and> weighted_sum (config example_dev_env)
        [(''collision_reward'', 0), (''right_lane_reward'', 0),
         (''high_speed_reward'', 0.5), (''on_road_reward'', 1),
         (''lane_centering_reward'', 0.2), (''abrupt_steering_penalty'', - 0.0095),
         (''abrupt_acceleration_penalty'', - 0.001)] = 0.1768185"
proof -
  let ?rc = "[(''collision_reward'', - 1), (''right_lane_reward'', 0),
              (''high_speed_reward'', 0.5), (''on_road_reward'', 1),
              (''lane_centering_reward'', 0.2), (''abrupt_steering_penalty'', - 0.0095),
              (''abrupt_acceleration_penalty'', - 0.001 :: real)]"
  let ?rs = "[(''collision_reward'', 0), (''right_lane_reward'', 0),
              (''high_speed_reward'', 0.5), (''on_road_reward'', 1),
              (''lane_centering_reward'', 0.2), (''abrupt_steering_penalty'', - 0.0095),
              (''abrupt_acceleration_penalty'', - 0.001 :: real)]"
  have c: "config example_dev_env = DevHighway_default_config empty_config"
    by (simp add: example_dev_env_def)
  have l: "1 < length [1, 0.5 :: real]" by simp
  have rc: "fst (DevHighway_rewards
            (example_dev_env\<lparr>vehicle := (vehicle example_dev_env)\<lparr>crashed := True\<rparr>\<rparr>) [1, 0.5])
       = Inr ?rc"
    by (simp add: eval_defs)
  have rs: "fst (DevHighway_rewards
            (example_dev_env\<lparr>vehicle := (vehicle example_dev_env)\<lparr>crashed := False\<rparr>\<rparr>) [1, 0.5])
       = Inr ?rs"
    by (simp add: eval_defs)
  have ws: "weighted_sum (config example_dev_env) ?rs = 0.1768185"
    by (simp add: example_defs weighted_sum_def dict_get_def)
  from crash_raises_weighted_sum [OF c l] obtain x y where
    x: "fst (DevHighway_rewards
            (example_dev_env\<lparr>vehicle := (vehicle example_dev_env)\<lparr>crashed := True\<rparr>\<rparr>) [1, 0.5])
         = Inr x"
    and y: "fst (DevHighway_rewards
            (example_dev_env\<lparr>vehicle := (vehicle example_dev_env)\<lparr>crashed := False\<rparr>\<rparr>) [1, 0.5])
         = Inr y"
    and s: "weighted_sum (config example_dev_env) x = weighted_sum (config example_dev_env) y + 1"
    by (elim exE conjE)
  from x rc have "x = ?rc" by (simp only: sum.inject)
  moreover from y rs have "y = ?rs" by (simp only: sum.inject)
  ultimately
  have "weighted_sum (config example_dev_env) ?rc = weighted_sum (config example_dev_env) ?rs + 1"
    using s by (simp only:)
  with ws have wc: "weighted_sum (config example_dev_env) ?rc = 1.1768185"
    by simp
  show ?thesis
    by (intro conjI) (rule c l rc rs wc ws)+
qed

text \<open>
  The aggregate reward raises KeyError when the \<open>collision_reward\<close> weight is absent and
  normalization is enabled, in the base and in the extended policy.
\<close>

theorem unconfigured_weight_raises_counterexample:
  "entries (config (example_env\<lparr>config := (config example_env)
       \<lparr>entries := (entries (config example_env))(''collision_reward'' := None)\<rparr>\<rparr>))
     ''collision_reward'' = None
   \<and> HighwayEnv_reward
        (example_env\<lparr>config := (config example_env)
           \<lparr>entries := (entries (config example_env))(''collision_reward'' := None)\<rparr>\<rparr>) ()
       = Inl (KeyError ''collision_reward'')
   \<and> entries (config (example_dev_env\<lparr>config := (config example_dev_env)
       \<lparr>entries := (entries (config example_dev_env))(''collision_reward'' := None)\<rparr>\<rparr>))
     ''collision_reward'' = None
   \<and> fst (DevHighway_reward
        (example_dev_env\<lparr>config := (config example_dev_env)
           \<lparr>entries := (entries (config example_dev_env))(''collision_reward'' := None)\<rparr>\<rparr>)
        [1, 0.5])
       = Inl (KeyError ''collision_reward'')"
  by (simp add: eval_defs)

text \<open>
  C8, as amended. In the weighted sum of either policy a component whose name has no
  configured weight contributes 0: the sum is the sum without that component, and its
  lookup cannot raise. For a name that no strict lookup reads, an absent weight and a
  weight of 0 give the same aggregate reward, value or error alike. A weight that a
  strict lookup reads raises KeyError when absent: \<open>collision_reward\<close> in the base
  policy whenever normalization is enabled, \<open>abrupt_steering_penalty\<close> in every call
  of the extended policy. The names \<open>normalize_reward\<close> and \<open>reward_speed_range\<close> are set apart with the
  strictly read names: in the source they are keys of the same dict.
\<close>

theorem unconfigured_weight_contributes_nothing:
  "(entries cfg name = None \<longrightarrow>
      weighted_sum cfg rewards = weighted_sum cfg (filter (\<lambda>(n, r). n \<noteq> name) rewards))
   \<and> (name \<notin> {''collision_reward'', ''high_speed_reward'', ''right_lane_reward'',
                ''normalize_reward'', ''reward_speed_range''} \<longrightarrow>
        HighwayEnv_reward
          (self\<lparr>config := (config self)\<lparr>entries := (entries (config self))(name := None)\<rparr>\<rparr>) a
        = HighwayEnv_reward
          (self\<lparr>config := (config self)\<lparr>entries := (entries (config self))(name \<mapsto> 0)\<rparr>\<rparr>) a)
   \<and> (name \<notin> {''collision_reward'', ''high_speed_reward'', ''right_lane_reward'',
                ''lane_centering_reward'', ''abrupt_steering_penalty'',
                ''abrupt_acceleration_penalty'', ''lane_centering_cost'',
                ''normalize_reward'', ''reward_speed_range''} \<longrightarrow>
        fst (DevHighway_reward
          (dev\<lparr>config := (config dev)\<lparr>entries := (entries (config dev))(name := None)\<rparr>\<rparr>) action)
        = fst (DevHighway_reward
          (dev\<lparr>config := (config dev)\<lparr>entries := (entries (config dev))(name \<mapsto> 0)\<rparr>\<rparr>) action))
   \<and> (normalize_reward (config self) \<and> entries (config self) ''collision_reward'' = None \<longrightarrow>
        HighwayEnv_reward self a = Inl (KeyError ''collision_reward''))
   \<and> (entries (config dev) ''abrupt_steering_penalty'' = None \<longrightarrow>
        DevHighway_reward dev action = (Inl (KeyError ''abrupt_steering_penalty''), dev))"
proof (intro conjI impI)
  assume "entries cfg name = None"
  then show "weighted_sum cfg rewards
               = weighted_sum cfg (filter (\<lambda>(n, r). n \<noteq> name) rewards)"
    by (rule weighted_sum_unconfigured)
next
  assume "name \<notin> {''collision_reward'', ''high_speed_reward'', ''right_lane_reward'',
                   ''normalize_reward'', ''reward_speed_range''}"
  then have "name \<notin> {''collision_reward'', ''high_speed_reward'', ''right_lane_reward''}"
    by simp
  then show "HighwayEnv_reward
          (self\<lparr>config := (config self)\<lparr>entries := (entries (config self))(name := None)\<rparr>\<rparr>) a
        = HighwayEnv_reward
          (self\<lparr>config := (config self)\<lparr>entries := (entries (config self))(name \<mapsto> 0)\<rparr>\<rparr>) a"
    by (rule HighwayEnv_reward_absent_or_zero)
next
  assume "name \<notin> {''collision_reward'', ''high_speed_reward'', ''right_lane_reward'',
                ''lane_centering_reward'', ''abrupt_steering_penalty'',
                ''abrupt_acceleration_penalty'', ''lane_centering_cost'',
                ''normalize_reward'', ''reward_speed_range''}"
  then have "name \<notin> {''collision_reward'', ''high_speed_reward'', ''right_lane_reward'',
                ''lane_centering_reward'', ''abrupt_steering_penalty'',
                ''abrupt_acceleration_penalty'', ''lane_centering_cost''}"
    by simp
  then show "fst (DevHighway_reward
          (dev\<lparr>config := (config dev)\<lparr>entries := (entries (config dev))(name := None)\<rparr>\<rparr>) action)
        = fst (DevHighway_reward
          (dev\<lparr>config := (config dev)\<lparr>entries := (entries (config dev))(name \<mapsto> 0)\<rparr>\<rparr>) action)"
    by (rule DevHighway_reward_absent_or_zero)
next
  assume "normalize_reward (config self) \<and> entries (config self) ''collision_reward'' = None"
  then show "HighwayEnv_reward self a = Inl (KeyError ''collision_reward'')"
    by (simp add: HighwayEnv_reward_raises)
next
  assume "entries (config dev) ''abrupt_steering_penalty'' = None"
  then show "DevHighway_reward dev action = (Inl (KeyError ''abrupt_steering_penalty''), dev)"
    by (rule DevHighway_reward_raises)
qed

theorem unconfigured_weight_contributes_nothing_witness:
  "entries (config example_env) ''on_road_reward'' = None
   \<and> weighted_sum (config example_env) (HighwayEnv_rewards example_env ())
       = weighted_sum (config example_env)
           (filter (\<lambda>(n, r). n \<noteq> ''on_road_reward'') (HighwayEnv_rewards example_env ()))
   \<and> ''on_road_reward'' \<notin> {''collision_reward'', ''high_speed_reward'', ''right_lane_reward'',
                ''lane_centering_reward'', ''abrupt_steering_penalty'',
                ''abrupt_acceleration_penalty'', ''lane_centering_cost'',
                ''normalize_reward'', ''reward_speed_range''}
   \<and> HighwayEnv_reward
        (example_env\<lparr>config := (config example_env)
           \<lparr>entries := (entries (config example_env))(''on_road_reward'' := None)\<rparr>\<rparr>) ()
       = HighwayEnv_reward
        (example_env\<lparr>config := (config example_env)
           \<lparr>entries := (entries (config example_env))(''on_road_reward'' \<mapsto> 0)\<rparr>\<rparr>) ()
   \<and> HighwayEnv_reward
        (example_env\<lparr>config := (config example_env)
           \<lparr>entries := (entries (config example_env))(''on_road_reward'' \<mapsto> 0)\<rparr>\<rparr>) ()
       = Inr 0.8
   \<and> fst (DevHighway_reward
        (example_dev_env\<lparr>config := (config example_dev_env)
           \<lparr>entries := (entries (config example_dev_env))(''on_road_reward'' := None)\<rparr>\<rparr>)
        [1, 0.5])
       = fst (DevHighway_reward
        (example_dev_env\<lparr>config := (config example_dev_env)
           \<lparr>entries := (entries (config example_dev_env))(''on_road_reward'' \<mapsto> 0)\<rparr>\<rparr>)
        [1, 0.5])
   \<and> entries (config (example_dev_env\<lparr>config := (config example_dev_env)
           \<lparr>entries := (entries (config example_dev_env))(''abrupt_steering_penalty'' := None),
             normalize_reward := False\<rparr>\<rparr>)) ''abrupt_steering_penalty'' = None
   \<and> fst (DevHighway_reward
        (example_dev_env\<lparr>config := (config example_dev_env)
           \<lparr>entries := (entries (config example_dev_env))(''abrupt_steering_penalty'' := None),
             normalize_reward := False\<rparr>\<rparr>)
        [1, 0.5])
       = Inl (KeyError ''abrupt_steering_penalty'')"
proof -
  let ?d = "example_dev_env\<lparr>config := (config example_dev_env)
           \<lparr>entries := (entries (config example_dev_env))(''abrupt_steering_penalty'' := None),
             normalize_reward := False\<rparr>\<rparr>"
  have u: "entries (config example_env) ''on_road_reward'' = None"
    by (simp add: example_defs)
  have m: "''on_road_reward'' \<notin> {''collision_reward'', ''high_speed_reward'', ''right_lane_reward'',
                ''lane_centering_reward'', ''abrupt_steering_penalty'',
                ''abrupt_acceleration_penalty'', ''lane_centering_cost'',
                ''normalize_reward'', ''reward_speed_range''}"
    by simp
  then have m': "''on_road_reward'' \<notin> {''collision_reward'', ''high_speed_reward'',
                ''right_lane_reward'', ''normalize_reward'', ''reward_speed_range''}"
    by simp
  have a: "entries (config ?d) ''abrupt_steering_penalty'' = None"
    by (simp add: example_defs)
  note t = unconfigured_weight_contributes_nothing
    [of "config example_env" "''on_road_reward''" "HighwayEnv_rewards example_env ()"
        example_env "()" example_dev_env "[1, 0.5]"]
  note t' = unconfigured_weight_contributes_nothing
    [of "config example_env" "''on_road_reward''" "HighwayEnv_rewards example_env ()"
        example_env "()" ?d "[1, 0.5]"]
  note c1 = t [THEN conjunct1, THEN mp, OF u]
  note c2 = t [THEN conjunct2, THEN conjunct1, THEN mp, OF m']
  note c3 = t [THEN conjunct2, THEN conjunct2, THEN conjunct1, THEN mp, OF m]
  have c4: "fst (DevHighway_reward ?d [1, 0.5]) = Inl (KeyError ''abrupt_steering_penalty'')"
    by (simp only: t' [THEN conjunct2, THEN conjunct2, THEN conjunct2, THEN conjunct2,
                       THEN mp, OF a] fst_conv)
  have v: "HighwayEnv_reward
        (example_env\<lparr>config := (config example_env)
           \<lparr>entries := (entries (config example_env))(''on_road_reward'' \<mapsto> 0)\<rparr>\<rparr>) ()
       = Inr 0.8"
    by (simp add: eval_defs)
  show ?thesis
    by (intro conjI) (rule u m a c1 c2 c3 c4 v)+
qed

section \<open>The state of the extended policy\<close>

text \<open>
  C2. After \<open>_reset\<close>, which sets \<open>previous_steering\<close> and \<open>previous_acceleration\<close> to 0, a
  call of \<open>_rewards\<close> whose action has steering (its second component) 0.5 gives
  \<open>abrupt_steering_penalty\<close> = - (weight * 0.5) and leaves \<open>previous_steering\<close> = 0.5; the
  call that follows, again with steering 0.5, gives \<open>abrupt_steering_penalty\<close> = 0.
\<close>

theorem steering_penalty_after_reset:
  assumes "entries (config self) ''abrupt_steering_penalty'' = Some ws"
    and "entries (config self) ''abrupt_acceleration_penalty'' = Some wa"
    and "entries (config self) ''lane_centering_cost'' = Some cost"
    and "1 < length a1" and "a1 ! 1 = 0.5"
    and "1 < length a2" and "a2 ! 1 = 0.5"
  shows "let dev0 = DevHighway_reset new_road new_vehicle self;
             (result1, dev1) = DevHighway_rewards dev0 a1;
             (result2, dev2) = DevHighway_rewards dev1 a2
         in previous_steering dev0 = 0 \<and> previous_acceleration dev0 = 0
          \<and> bind_err result1 (\<lambda>rewards. dict_getitem (map_of rewards) ''abrupt_steering_penalty'')
              = Inr (- (ws * 0.5))
          \<and> previous_steering dev1 = 0.5
          \<and> bind_err result2 (\<lambda>rewards. dict_getitem (map_of rewards) ''abrupt_steering_penalty'')
              = Inr 0"
proof -
  let ?dev0 = "DevHighway_reset new_road new_vehicle self"
  let ?dev1 = "?dev0\<lparr>previous_steering := a1 ! 1, previous_acceleration := a1 ! 0\<rparr>"
  have c0: "config ?dev0 = config self"
    by (simp add: DevHighway_reset_def HighwayEnv_reset_def)
  have p0: "previous_steering ?dev0 = 0" "previous_acceleration ?dev0 = 0"
    by (simp_all add: DevHighway_reset_def HighwayEnv_reset_def)
  have k0: "entries (config ?dev0) ''abrupt_steering_penalty'' = Some ws"
    "entries (config ?dev0) ''abrupt_acceleration_penalty'' = Some wa"
    "entries (config ?dev0) ''lane_centering_cost'' = Some cost"
    using assms(1-3) by (simp_all add: c0)
  have k1: "entries (config ?dev1) ''abrupt_steering_penalty'' = Some ws"
    "entries (config ?dev1) ''abrupt_acceleration_penalty'' = Some wa"
    "entries (config ?dev1) ''lane_centering_cost'' = Some cost"
    using assms(1-3) by (simp_all add: c0)
  note r1 = DevHighway_rewards_returns [OF k0 assms(4)]
  note r2 = DevHighway_rewards_returns [OF k1 assms(6)]
  from assms(5) assms(7) show ?thesis
    unfolding Let_def r1 split_conv r2
    by (simp add: p0 bind_err_def dict_getitem_def)
qed


theorem steering_penalty_after_reset_witness:
  "entries (config (example_dev_env\<lparr>previous_steering := 0.3\<rparr>)) ''abrupt_steering_penalty''
     = Some 0.019
   \<and> entries (config (example_dev_env\<lparr>previous_steering := 0.3\<rparr>)) ''abrupt_acceleration_penalty''
     = Some 0.001
   \<and> entries (config (example_dev_env\<lparr>previous_steering := 0.3\<rparr>)) ''lane_centering_cost''
     = Some 4
   \<and> 1 < length [1, 0.5 :: real] \<and> [1, 0.5 :: real] ! 1 = 0.5
   \<and> 1 < length [0, 0.5 :: real] \<and> [0, 0.5 :: real] ! 1 = 0.5
   \<and> (let dev0 = DevHighway_reset \<lparr>network = example_network\<rparr> example_vehicle
                    (example_dev_env\<lparr>previous_steering := 0.3\<rparr>);
            (result1, dev1) = DevHighway_rewards dev0 [1, 0.5];
            (result2, dev2) = DevHighway_rewards dev1 [0, 0.5]
        in previous_steering dev0 = 0 \<and> previous_acceleration dev0 = 0
         \<and> bind_err result1 (\<lambda>rewards. dict_getitem (map_of rewards) ''abrupt_steering_penalty'')
             = Inr (- (0.019 * 0.5))
         \<and> previous_steering dev1 = 0.5
         \<and> bind_err result2 (\<lambda>rewards. dict_getitem (map_of rewards) ''abrupt_steering_penalty'')
             = Inr 0)"
proof -
  let ?self = "example_dev_env\<lparr>previous_steering := 0.3\<rparr>"
  have k1: "entries (config ?self) ''abrupt_steering_penalty'' = Some 0.019"
    by (simp add: example_defs)
  have k2: "entries (config ?self) ''abrupt_acceleration_penalty'' = Some 0.001"
    by (simp add: example_defs)
  have k3: "entries (config ?self) ''lane_centering_cost'' = Some 4"
    by (simp add: example_defs)
  have l1: "1 < length [1, 0.5 :: real]" and i1: "[1, 0.5 :: real] ! 1 = 0.5"
    and l2: "1 < length [0, 0.5 :: real]" and i2: "[0, 0.5 :: real] ! 1 = 0.5"
    by simp_all
  note t = steering_penalty_after_reset [OF k1 k2 k3 l1 i1 l2 i2,
      of "\<lparr>network = example_network\<rparr>" example_vehicle]
  show ?thesis
    by (intro conjI) (rule k1 k2 k3 l1 i1 l2 i2 t)+
qed

text \<open>
  C10. A call of the extended \<open>_rewards\<close> (and so of \<open>_reward\<close>) on an environment
  whose two penalty weights are configured, with an action of two components, leaves
  the object as it was but for \<open>previous_steering\<close>, now the second component of the
  action, and \<open>previous_acceleration\<close>, now the first. Nothing is asked of the vehicle:
  it may be crashed or off the road.
\<close>

theorem rewards_updates_previous_controls:
  assumes "entries (config dev) ''abrupt_steering_penalty'' = Some ws"
    and "entries (config dev) ''abrupt_acceleration_penalty'' = Some wa"
    and "1 < length action"
  shows "snd (DevHighway_rewards dev action)
           = dev\<lparr>previous_steering := action ! 1, previous_acceleration := action ! 0\<rparr>
       \<and> snd (DevHighway_reward dev action)
           = dev\<lparr>previous_steering := action ! 1, previous_acceleration := action ! 0\<rparr>"
proof -
  from assms(3) have "0 < length action" by arith
  with assms have "snd (DevHighway_rewards dev action)
           = dev\<lparr>previous_steering := action ! 1, previous_acceleration := action ! 0\<rparr>"
    by (simp add: DevHighway_rewards_def dict_getitem_def py_getitem_def Let_def
          split: option.splits)
  then show ?thesis by (simp add: DevHighway_reward_state)
qed

theorem rewards_updates_previous_controls_witness:
  "entries (config (example_dev_env\<lparr>vehicle := example_vehicle\<lparr>crashed := True, on_road := False\<rparr>\<rparr>))
      ''abrupt_steering_penalty'' = Some 0.019
   \<and> entries (config (example_dev_env\<lparr>vehicle := example_vehicle\<lparr>crashed := True, on_road := False\<rparr>\<rparr>))
      ''abrupt_acceleration_penalty'' = Some 0.001
   \<and> 1 < length [1, 0.5 :: real]
   \<and> snd (DevHighway_rewards
            (example_dev_env\<lparr>vehicle := example_vehicle\<lparr>crashed := True, on_road := False\<rparr>\<rparr>)
            [1, 0.5])
       = example_dev_env\<lparr>vehicle := example_vehicle\<lparr>crashed := True, on_road := False\<rparr>,
                         previous_steering := 0.5, previous_acceleration := 1\<rparr>
   \<and> DevHighway_reward
            (example_dev_env\<lparr>vehicle := example_vehicle\<lparr>crashed := True, on_road := False\<rparr>\<rparr>)
            [1, 0.5]
       = (Inr 0,
          example_dev_env\<lparr>vehicle := example_vehicle\<lparr>crashed := True, on_road := False\<rparr>,
                         previous_steering := 0.5, previous_acceleration := 1\<rparr>)"
proof -
  let ?dev = "example_dev_env\<lparr>vehicle := example_vehicle\<lparr>crashed := True, on_road := False\<rparr>\<rparr>"
  have k1: "entries (config ?dev) ''abrupt_steering_penalty'' = Some 0.019"
    by (simp add: example_defs)
  have k2: "entries (config ?dev) ''abrupt_acceleration_penalty'' = Some 0.001"
    by (simp add: example_defs)
  have k3: "entries (config ?dev) ''lane_centering_cost'' = Some 4"
    by (simp add: example_defs)
  have l: "1 < length [1, 0.5 :: real]" by simp
  note st = rewards_updates_previous_controls [OF k1 k2 l]
  have r: "fst (DevHighway_reward ?dev [1, 0.5]) = Inr 0"
    by (simp add: example_defs lookup_defs DevHighway_reward_def DevHighway_rewards_def
          weighted_sum_def lmap_def clip_def lane_number_def lane_id_def Let_def)
  from st r k1 k2 l show ?thesis by (simp add: prod_eq_iff)
qed

section \<open>The lane-distance query\<close>

text \<open>
  C1. \<open>lane_distance\<close> fills a list of lane identifiers and a list of distances, one
  entry each per lane segment of the graph, and returns the list of distances alone:
  on the example road of two lanes the loops end with the identifiers
  \<open>(0, 1, 0)\<close>, \<open>(0, 1, 1)\<close> and the distances 1, 3, and the value returned is \<open>[1, 3]\<close>.
\<close>

theorem lane_distance_returns_distances_only:
  "lane_distance_lists example_vehicle = ([(''0'', ''1'', 0), (''0'', ''1'', 1)], [1, 3])
   \<and> lane_distance example_vehicle = [1, 3]
   \<and> lane_segments (graph (network (vehicle_road example_vehicle))) = 2"
  by (simp add: example_defs lane_distance_def lane_distance_lists_def lane_segments_def)

end
